theory Spec2Isabelle
  imports Complex_Main "HOL-Library.Multiset" "HOL-Library.Sublist"
begin

section \<open>The persisted schema (database_manager.py, init_database)\<close>

text \<open>
  The three tables of \<^verbatim>\<open>init_database\<close>. Cells are modelled at the declared type of
  their column, \<open>None\<close> being SQL NULL (no column is declared NOT NULL):
  INTEGER columns hold \<open>int option\<close>, VARCHAR/TEXT columns \<open>string option\<close> and
  REAL columns \<open>real option\<close>. SQLite's dynamic typing of values of another type,
  and the rounding of IEEE doubles, are outside the model; strings are lists of
  8-bit characters.

  \<open>trade_tuple\<close> is one parameter tuple of \<^verbatim>\<open>insert_trade_data\<close>: the twelve columns
  named in its INSERT statement. \<open>trade_row\<close> is a stored row: the tuple with the
  \<^verbatim>\<open>id INTEGER PRIMARY KEY AUTOINCREMENT\<close> (here \<open>row_id\<close>) and the \<^verbatim>\<open>created_at\<close>
  default. In \<open>hs_code_row\<close> the columns \<^verbatim>\<open>code\<close> and \<^verbatim>\<open>section\<close> are \<open>hs_key\<close> and
  \<open>hs_section\<close>.
\<close>

record trade_tuple =
  year :: "int option"
  month :: "int option"
  reporter_code :: "string option"
  reporter_name :: "string option"
  partner_code :: "string option"
  partner_name :: "string option"
  trade_flow :: "string option"
  hs_code :: "string option"
  hs_description :: "string option"
  trade_value :: "real option"
  quantity :: "real option"
  unit :: "string option"

record trade_row = trade_tuple +
  row_id :: int
  created_at :: int

record country =
  code :: "string option"
  name :: "string option"
  region :: "string option"

record hs_code_row =
  hs_key :: "string option"
  description :: "string option"
  hs_section :: "string option"

text \<open>
  The database file: the rows of each table in rowid order, and the counter that
  SQLite keeps in \<^verbatim>\<open>sqlite_sequence\<close> for the AUTOINCREMENT column.
\<close>

record store =
  trade_data :: "trade_row list"
  trade_seq :: int
  countries :: "country list"
  hs_codes :: "hs_code_row list"

definition init_database :: store where
  "init_database = \<lparr>trade_data = [], trade_seq = 0, countries = [], hs_codes = []\<rparr>"

definition tuple_of :: "trade_row \<Rightarrow> trade_tuple" where
  "tuple_of r =
     \<lparr>year = year r, month = month r, reporter_code = reporter_code r,
      reporter_name = reporter_name r, partner_code = partner_code r,
      partner_name = partner_name r, trade_flow = trade_flow r, hs_code = hs_code r,
      hs_description = hs_description r, trade_value = trade_value r,
      quantity = quantity r, unit = unit r\<rparr>"

definition mk_row :: "int \<Rightarrow> int \<Rightarrow> trade_tuple \<Rightarrow> trade_row" where
  "mk_row i ts t = trade_tuple.extend t (trade_row.fields i ts)"

section \<open>Exceptions and the connection scope\<close>

datatype error =
    OverflowError      \<comment> \<open>Python int too large to convert to SQLite INTEGER\<close>
  | OperationalError   \<comment> \<open>raised by the engine (SQLITE\_FULL, pattern too complex)\<close>
  | AttributeError
  | ValueError
  | TypeError

definition in_int64 :: "int \<Rightarrow> bool" where
  "in_int64 i \<longleftrightarrow> - (2 ^ 63) \<le> i \<and> i < 2 ^ 63"

definition bind_int :: "int option \<Rightarrow> bool" where
  "bind_int v = (case v of None \<Rightarrow> True | Some i \<Rightarrow> in_int64 i)"

text \<open>
  \<^verbatim>\<open>with self.get_connection() as conn: ...; conn.commit()\<close> inside
  \<^verbatim>\<open>try: ... except Exception as e: logger.error(...); raise\<close>.
  The body runs in one transaction on the state of the file. When it raises, the
  connection's context manager rolls the transaction back and the handler re-raises:
  the file keeps the state it had and the caller gets the exception. Otherwise the
  transaction is committed. The result is the exception raised (if any) and the state
  of the file afterwards.
\<close>

definition with_connection :: "(store \<Rightarrow> error + store) \<Rightarrow> store \<Rightarrow> error option \<times> store" where
  "with_connection body st =
     (case body st of
        Inl e \<Rightarrow> (Some e, st)
      | Inr st' \<Rightarrow> (None, st'))"

section \<open>Upsert writer: the fact table (insert_trade_data)\<close>

text \<open>
  \<^verbatim>\<open>INSERT OR REPLACE INTO trade_data (year, ..., unit) VALUES (?, ..., ?)\<close>.
  The statement gives no value for \<^verbatim>\<open>id\<close>, so the engine assigns one: with
  AUTOINCREMENT, one more than the largest rowid the table ever held, and the insert
  fails once that is the largest 64-bit integer. The new id conflicts with no row, so
  OR REPLACE never replaces anything. \<open>now\<close> is the engine's CURRENT\_TIMESTAMP.
\<close>

definition largest_rowid :: "store \<Rightarrow> int" where
  "largest_rowid st = max (trade_seq st) (foldr max (map row_id (trade_data st)) 0)"

definition bindable :: "trade_tuple \<Rightarrow> bool" where
  "bindable t \<longleftrightarrow> bind_int (year t) \<and> bind_int (month t)"

definition insert_trade_row :: "int \<Rightarrow> trade_tuple \<Rightarrow> store \<Rightarrow> error + store" where
  "insert_trade_row now t st =
     (if \<not> bindable t then Inl OverflowError
      else if largest_rowid st \<ge> 2 ^ 63 - 1 then Inl OperationalError
      else Inr (st\<lparr>trade_data := trade_data st @ [mk_row (largest_rowid st + 1) now t],
                  trade_seq := largest_rowid st + 1\<rparr>))"

text \<open>\<^verbatim>\<open>cursor.executemany\<close>: one statement execution per tuple, in order, stopping at the
  first that raises.\<close>

fun executemany_trade :: "int \<Rightarrow> trade_tuple list \<Rightarrow> store \<Rightarrow> error + store" where
  "executemany_trade now [] st = Inr st"
| "executemany_trade now (t # ts) st =
     (case insert_trade_row now t st of
        Inl e \<Rightarrow> Inl e
      | Inr st' \<Rightarrow> executemany_trade now ts st')"

definition insert_trade_data :: "int \<Rightarrow> trade_tuple list \<Rightarrow> store \<Rightarrow> error option \<times> store" where
  "insert_trade_data now data_list st = with_connection (executemany_trade now data_list) st"

section \<open>Upsert writer: the reference tables (insert_countries, insert_hs_codes)\<close>

text \<open>
  \<^verbatim>\<open>INSERT OR REPLACE INTO countries (code, name, region) VALUES (?, ?, ?)\<close>, and the
  same statement on \<^verbatim>\<open>hs_codes\<close>. \<^verbatim>\<open>code VARCHAR(..) PRIMARY KEY\<close> is a unique index on a
  column that is not the rowid: a stored row conflicts with the new one when both have
  the same code and that code is not NULL (NULLs never conflict in a unique index of
  SQLite). REPLACE deletes the conflicting rows and inserts the new row at a fresh
  rowid, that is, after the others.
\<close>

definition upsert :: "('r \<Rightarrow> string option) \<Rightarrow> 'r \<Rightarrow> 'r list \<Rightarrow> 'r list" where
  "upsert key r tab = filter (\<lambda>r0. key r0 = None \<or> key r0 \<noteq> key r) tab @ [r]"

definition executemany_upsert :: "('r \<Rightarrow> string option) \<Rightarrow> 'r list \<Rightarrow> 'r list \<Rightarrow> 'r list" where
  "executemany_upsert key rows tab = foldl (\<lambda>tab r. upsert key r tab) tab rows"

definition insert_countries :: "country list \<Rightarrow> store \<Rightarrow> error option \<times> store" where
  "insert_countries countries_data st =
     with_connection
       (\<lambda>st. Inr (st\<lparr>countries := executemany_upsert code countries_data (countries st)\<rparr>)) st"

definition insert_hs_codes :: "hs_code_row list \<Rightarrow> store \<Rightarrow> error option \<times> store" where
  "insert_hs_codes hs_codes_data st =
     with_connection
       (\<lambda>st. Inr (st\<lparr>hs_codes := executemany_upsert hs_key hs_codes_data (hs_codes st)\<rparr>)) st"

text \<open>What a batch leaves behind: for every key, the last row of the batch that has it
  (rows with a NULL key all stay). Used to state the effect of a whole batch.\<close>

fun last_writes :: "('r \<Rightarrow> string option) \<Rightarrow> 'r list \<Rightarrow> 'r list" where
  "last_writes key [] = []"
| "last_writes key (r # rs) =
     (if key r \<noteq> None \<and> key r \<in> key ` set rs then last_writes key rs
      else r # last_writes key rs)"

section \<open>Python values\<close>

text \<open>
  The values a caller puts into the \<^verbatim>\<open>filters\<close> dictionary: \<^verbatim>\<open>None\<close>, booleans,
  integers and strings, with Python's truth value and \<^verbatim>\<open>str()\<close>.
\<close>

datatype pyval = PNone | PBool bool | PInt int | PStr string

fun truthy :: "pyval \<Rightarrow> bool" where
  "truthy PNone = False"
| "truthy (PBool b) = b"
| "truthy (PInt i) = (i \<noteq> 0)"
| "truthy (PStr s) = (s \<noteq> [])"

fun str_nat :: "nat \<Rightarrow> string" where
  "str_nat n =
     (if n < 10 then [''0123456789'' ! n]
      else str_nat (n div 10) @ [''0123456789'' ! (n mod 10)])"

definition str_int :: "int \<Rightarrow> string" where
  "str_int i = (if i < 0 then CHR ''-'' # str_nat (nat (- i)) else str_nat (nat i))"

fun py_str :: "pyval \<Rightarrow> string" where
  "py_str PNone = ''None''"
| "py_str (PBool b) = (if b then ''True'' else ''False'')"
| "py_str (PInt i) = str_int i"
| "py_str (PStr s) = s"

section \<open>Query builder: get_trade_data\<close>

text \<open>
  A bound parameter as sqlite3 hands it to the engine, and the comparisons of the
  WHERE clause. \<^verbatim>\<open>column = ?\<close> is never true on a NULL cell. Against a VARCHAR column an
  integer parameter is compared as its decimal text (TEXT affinity is applied to the
  parameter). Against the INTEGER column \<^verbatim>\<open>year\<close> a text parameter is compared as text,
  which no integer equals; SQLite would first read a text that spells a number as that
  number, and this conversion is not modelled.
\<close>

datatype sqlval = SNull | SInt int | SText string

fun to_sql :: "pyval \<Rightarrow> sqlval" where
  "to_sql PNone = SNull"
| "to_sql (PBool b) = SInt (if b then 1 else 0)"
| "to_sql (PInt i) = SInt i"
| "to_sql (PStr s) = SText s"

fun bind_param :: "pyval \<Rightarrow> bool" where
  "bind_param (PInt i) = in_int64 i"
| "bind_param v = True"

fun int_col_eq :: "int option \<Rightarrow> sqlval \<Rightarrow> bool" where
  "int_col_eq (Some y) (SInt i) = (y = i)"
| "int_col_eq c v = False"

fun text_col_eq :: "string option \<Rightarrow> sqlval \<Rightarrow> bool" where
  "text_col_eq (Some s) (SText p) = (s = p)"
| "text_col_eq (Some s) (SInt i) = (s = str_int i)"
| "text_col_eq c v = False"

text \<open>
  SQLite's LIKE operator without ESCAPE clause: in the pattern \<^verbatim>\<open>%\<close> stands for any
  sequence of characters and \<^verbatim>\<open>_\<close> for any one character; every other character stands
  for itself, upper and lower case of the ASCII letters being the same (\<open>like_lower\<close>
  is the code of a character with the upper-case letters moved onto the lower-case
  ones). NULL matches no pattern. The engine refuses a pattern of more than 50000 bytes.
\<close>

definition like_lower :: "char \<Rightarrow> nat" where
  "like_lower c =
     (if 65 \<le> (of_char c :: nat) \<and> (of_char c :: nat) \<le> 90
      then (of_char c :: nat) + 32 else of_char c)"

fun like_match :: "string \<Rightarrow> string \<Rightarrow> bool" where
  "like_match [] s = (s = [])"
| "like_match (p # ps) [] = (p = CHR ''%'' \<and> like_match ps [])"
| "like_match (p # ps) (c # cs) =
     (if p = CHR ''%'' then like_match ps (c # cs) \<or> like_match (p # ps) cs
      else (p = CHR ''_'' \<or> like_lower p = like_lower c) \<and> like_match ps cs)"

definition like_col :: "string option \<Rightarrow> string \<Rightarrow> bool" where
  "like_col c pat = (case c of None \<Rightarrow> False | Some s \<Rightarrow> like_match pat s)"

text \<open>
  \<^verbatim>\<open>ORDER BY year DESC, trade_value DESC\<close>. NULL is the smallest value of SQLite's
  order, so it comes last in descending order. \<open>desc_nulls_last a b\<close>: the value \<open>a\<close>
  may stand before \<open>b\<close>. The sort is an insertion sort that keeps rows of equal keys
  in rowid order; SQL leaves the order of such rows open.
\<close>

definition desc_nulls_last :: "'a::linorder option \<Rightarrow> 'a option \<Rightarrow> bool" where
  "desc_nulls_last a b =
     (case b of None \<Rightarrow> True | Some y \<Rightarrow> (case a of None \<Rightarrow> False | Some x \<Rightarrow> y \<le> x))"

definition trade_order :: "'a trade_tuple_scheme \<Rightarrow> 'b trade_tuple_scheme \<Rightarrow> bool" where
  "trade_order r1 r2 \<longleftrightarrow>
     desc_nulls_last (year r1) (year r2)
     \<and> (year r1 = year r2 \<longrightarrow> desc_nulls_last (trade_value r1) (trade_value r2))"

fun insort_by :: "('a \<Rightarrow> 'a \<Rightarrow> bool) \<Rightarrow> 'a \<Rightarrow> 'a list \<Rightarrow> 'a list" where
  "insort_by le x [] = [x]"
| "insort_by le x (y # ys) = (if le x y then x # y # ys else y # insort_by le x ys)"

definition sort_by :: "('a \<Rightarrow> 'a \<Rightarrow> bool) \<Rightarrow> 'a list \<Rightarrow> 'a list" where
  "sort_by le xs = foldr (insort_by le) xs []"

text \<open>
  The \<^verbatim>\<open>filters\<close> argument: \<^verbatim>\<open>None\<close> or a dictionary. \<open>selected filters k\<close> is the value
  that the test \<^verbatim>\<open>'k' in filters and filters['k']\<close> lets through. An empty dictionary
  fails the outer test \<^verbatim>\<open>if filters:\<close> and has no key, so both tests agree on it.
\<close>

type_synonym filters = "string \<rightharpoonup> pyval"

definition selected :: "filters option \<Rightarrow> string \<Rightarrow> pyval option" where
  "selected filters k =
     (case filters of
        None \<Rightarrow> None
      | Some f \<Rightarrow> (case f k of None \<Rightarrow> None | Some v \<Rightarrow> if truthy v then Some v else None))"

datatype cond = YearEq pyval | ReporterEq pyval | PartnerEq pyval | FlowEq pyval | HsLike string

definition build_query :: "filters option \<Rightarrow> cond list" where
  "build_query filters =
     (case selected filters ''year'' of None \<Rightarrow> [] | Some v \<Rightarrow> [YearEq v])
     @ (case selected filters ''reporter_code'' of None \<Rightarrow> [] | Some v \<Rightarrow> [ReporterEq v])
     @ (case selected filters ''partner_code'' of None \<Rightarrow> [] | Some v \<Rightarrow> [PartnerEq v])
     @ (case selected filters ''trade_flow'' of None \<Rightarrow> [] | Some v \<Rightarrow> [FlowEq v])
     @ (case selected filters ''hs_code'' of None \<Rightarrow> [] | Some v \<Rightarrow> [HsLike (py_str v @ ''%'')])"

fun cond_ok :: "cond \<Rightarrow> bool" where
  "cond_ok (YearEq v) = bind_param v"
| "cond_ok (ReporterEq v) = bind_param v"
| "cond_ok (PartnerEq v) = bind_param v"
| "cond_ok (FlowEq v) = bind_param v"
| "cond_ok (HsLike pat) = (length pat \<le> 50000)"

fun holds :: "cond \<Rightarrow> 'a trade_tuple_scheme \<Rightarrow> bool" where
  "holds (YearEq v) r = int_col_eq (year r) (to_sql v)"
| "holds (ReporterEq v) r = text_col_eq (reporter_code r) (to_sql v)"
| "holds (PartnerEq v) r = text_col_eq (partner_code r) (to_sql v)"
| "holds (FlowEq v) r = text_col_eq (trade_flow r) (to_sql v)"
| "holds (HsLike pat) r = like_col (hs_code r) pat"

text \<open>
  The result is the data frame as the list of its rows (the twelve selected columns).
  When a parameter cannot be bound or the engine refuses the pattern, the query raises
  and the handler returns the empty data frame. (A pattern that is too long is refused
  when the first row is matched against it; without such a row the result is empty as
  well.)
\<close>

definition get_trade_data :: "filters option \<Rightarrow> store \<Rightarrow> trade_tuple list" where
  "get_trade_data filters st =
     (let conds = build_query filters in
      if \<not> list_all cond_ok conds then []
      else map tuple_of
             (sort_by trade_order
                (filter (\<lambda>r. list_all (\<lambda>c. holds c r) conds) (trade_data st))))"

section \<open>Query builder: the aggregates\<close>

text \<open>
  SQL aggregates skip NULL: \<open>non_null\<close> keeps the values of the cells that are not
  NULL. MIN, MAX and SUM of no value are NULL.
\<close>

fun non_null :: "'a option list \<Rightarrow> 'a list" where
  "non_null [] = []"
| "non_null (None # xs) = non_null xs"
| "non_null (Some x # xs) = x # non_null xs"

fun sql_min :: "int list \<Rightarrow> int option" where
  "sql_min [] = None"
| "sql_min (x # xs) = Some (fold min xs x)"

fun sql_max :: "int list \<Rightarrow> int option" where
  "sql_max [] = None"
| "sql_max (x # xs) = Some (fold max xs x)"

fun sql_sum :: "real list \<Rightarrow> real option" where
  "sql_sum [] = None"
| "sql_sum (x # xs) = Some (sum_list (x # xs))"

record summary_stats =
  total_records :: nat
  year_range :: string
  unique_reporters :: nat
  unique_partners :: nat
  total_trade_value :: real

text \<open>
  \<^verbatim>\<open>get_summary_stats\<close>: five queries and two Python conditionals, \<^verbatim>\<open>if min_year\<close> and
  \<^verbatim>\<open>if total_value\<close>, which take NULL and zero alike.
\<close>

definition get_summary_stats :: "store \<Rightarrow> summary_stats" where
  "get_summary_stats st =
     (let rows = trade_data st;
          min_year = sql_min (non_null (map year rows));
          max_year = sql_max (non_null (map year rows));
          total_value = sql_sum (non_null (map trade_value
                          (filter (\<lambda>r. trade_value r \<noteq> None) rows)))
      in \<lparr>total_records = length rows,
          year_range =
            (case min_year of
               None \<Rightarrow> ''No data''
             | Some mn \<Rightarrow>
                 if mn = 0 then ''No data''
                 else str_int mn @ ''-'' @ (case max_year of None \<Rightarrow> ''None'' | Some mx \<Rightarrow> str_int mx)),
          unique_reporters = length (remdups (non_null (map reporter_code rows))),
          unique_partners = length (remdups (non_null (map partner_code rows))),
          total_trade_value =
            (case total_value of None \<Rightarrow> 0 | Some v \<Rightarrow> if v = 0 then 0 else v)\<rparr>)"

text \<open>
  \<^verbatim>\<open>get_top_traders\<close>: rows of the given flow with a trade value, grouped by reporter
  code and name; per group the name, the sum and the row count; largest sum first;
  at most \<open>limit\<close> groups (a negative LIMIT is no limit). A limit that does not fit
  64 bits cannot be bound and gives the empty data frame.
\<close>

definition get_top_traders :: "string \<Rightarrow> int \<Rightarrow> store \<Rightarrow> (string option \<times> real \<times> nat) list" where
  "get_top_traders flow limit st =
     (if \<not> in_int64 limit then []
      else
        let rows = filter (\<lambda>r. trade_flow r = Some flow \<and> trade_value r \<noteq> None) (trade_data st);
            grp = (\<lambda>r. (reporter_code r, reporter_name r));
            totals = map (\<lambda>g. (snd g,
                               sum_list (non_null (map trade_value (filter (\<lambda>r. grp r = g) rows))),
                               length (filter (\<lambda>r. grp r = g) rows)))
                       (remdups (map grp rows));
            ordered = sort_by (\<lambda>a b. fst (snd b) \<le> fst (snd a)) totals
        in if limit < 0 then ordered else take (nat limit) ordered)"

text \<open>
  \<^verbatim>\<open>get_trade_trends\<close>: rows with a trade value, of one reporter when \<^verbatim>\<open>country_code\<close> is
  a non-empty string, grouped by year and flow; per group the sum; ascending by year
  (NULL first).
\<close>

definition get_trade_trends :: "string option \<Rightarrow> store \<Rightarrow> (int option \<times> string option \<times> real) list" where
  "get_trade_trends country_code st =
     (let wanted = (\<lambda>r. case country_code of
                           None \<Rightarrow> True
                         | Some c \<Rightarrow> if c = [] then True else reporter_code r = Some c);
          rows = filter (\<lambda>r. wanted r \<and> trade_value r \<noteq> None) (trade_data st);
          grp = (\<lambda>r. (year r, trade_flow r));
          totals = map (\<lambda>g. (fst g, snd g,
                              sum_list (non_null (map trade_value (filter (\<lambda>r. grp r = g) rows)))))
                     (remdups (map grp rows))
      in sort_by (\<lambda>a b. desc_nulls_last (fst b) (fst a)) totals)"

section \<open>Extractor: response mapping (extract_trade_data_free_api)\<close>

text \<open>
  A decoded JSON document, as \<^verbatim>\<open>response.json()\<close> returns it: \<^verbatim>\<open>None\<close>, \<^verbatim>\<open>bool\<close>,
  \<^verbatim>\<open>int\<close>, \<^verbatim>\<open>float\<close>, \<^verbatim>\<open>str\<close>, \<^verbatim>\<open>list\<close> and \<^verbatim>\<open>dict\<close>. An object is the list of its
  members in the order of the text; the decoder keeps the last value of a repeated key.
  Floats are reals (no rounding, no infinities).
\<close>

datatype json =
    JNull | JBool bool | JInt int | JFloat real | JStr string
  | JArr "json list" | JObj "(string \<times> json) list"

fun json_truthy :: "json \<Rightarrow> bool" where
  "json_truthy JNull = False"
| "json_truthy (JBool b) = b"
| "json_truthy (JInt i) = (i \<noteq> 0)"
| "json_truthy (JFloat x) = (x \<noteq> 0)"
| "json_truthy (JStr s) = (s \<noteq> [])"
| "json_truthy (JArr xs) = (xs \<noteq> [])"
| "json_truthy (JObj kvs) = (kvs \<noteq> [])"

text \<open>\<^verbatim>\<open>d.get(key, default)\<close> on a dict.\<close>

definition dict_get :: "(string \<times> json) list \<Rightarrow> string \<Rightarrow> json \<Rightarrow> json" where
  "dict_get kvs key dflt = (case map_of (rev kvs) key of None \<Rightarrow> dflt | Some v \<Rightarrow> v)"

text \<open>
  Python's \<^verbatim>\<open>float(v)\<close>. \<open>float_of_str\<close> is the library's reading of a string as a
  float, \<open>None\<close> where it raises ValueError; it is a parameter of the model. An integer
  converts unless it rounds to a double beyond the largest one, that is, unless its
  magnitude is at least \<open>2^1024 - 2^970\<close>; then \<^verbatim>\<open>float\<close> raises OverflowError.
\<close>

fun py_float :: "(string \<Rightarrow> real option) \<Rightarrow> json \<Rightarrow> error + real" where
  "py_float float_of_str (JBool b) = Inr (if b then 1 else 0)"
| "py_float float_of_str (JInt i) =
     (if \<bar>i\<bar> < 2 ^ 1024 - 2 ^ 970 then Inr (real_of_int i) else Inl OverflowError)"
| "py_float float_of_str (JFloat x) = Inr x"
| "py_float float_of_str (JStr s) =
     (case float_of_str s of None \<Rightarrow> Inl ValueError | Some x \<Rightarrow> Inr x)"
| "py_float float_of_str v = Inl TypeError"

text \<open>\<^verbatim>\<open>float(record.get(k, 0)) if record.get(k) else None\<close>\<close>

definition float_or_none :: "(string \<Rightarrow> real option) \<Rightarrow> (string \<times> json) list \<Rightarrow> string \<Rightarrow> error + real option" where
  "float_or_none float_of_str kvs k =
     (if json_truthy (dict_get kvs k JNull)
      then (case py_float float_of_str (dict_get kvs k (JInt 0)) of
              Inl e \<Rightarrow> Inl e
            | Inr x \<Rightarrow> Inr (Some x))
      else Inr None)"

text \<open>
  The tuple \<^verbatim>\<open>data_record\<close> built for one source record. Ten components are Python
  values taken from the record or from the arguments of the call; the trade value and
  the quantity are a float or \<^verbatim>\<open>None\<close>, which sqlite3 stores as NULL.
\<close>

record data_record =
  d_year :: json
  d_month :: json
  d_reporter_code :: json
  d_reporter_name :: json
  d_partner_code :: json
  d_partner_name :: json
  d_trade_flow :: json
  d_hs_code :: json
  d_hs_description :: json
  d_trade_value :: "real option"
  d_quantity :: "real option"
  d_unit :: json

text \<open>The body of the inner \<^verbatim>\<open>try\<close>: \<^verbatim>\<open>record.get\<close> raises AttributeError when the
  element is not a dict.\<close>

definition map_record :: "(string \<Rightarrow> real option) \<Rightarrow> string \<Rightarrow> int \<Rightarrow> string \<Rightarrow> json \<Rightarrow> error + data_record" where
  "map_record float_of_str reporter yr hs record =
     (case record of
        JObj kvs \<Rightarrow>
          (case float_or_none float_of_str kvs ''tradeValue'' of
             Inl e \<Rightarrow> Inl e
           | Inr tv \<Rightarrow>
               (case float_or_none float_of_str kvs ''qty'' of
                  Inl e \<Rightarrow> Inl e
                | Inr q \<Rightarrow>
                    Inr \<lparr>d_year = dict_get kvs ''period'' (JInt yr),
                         d_month = JNull,
                         d_reporter_code = dict_get kvs ''reporterCode'' (JStr reporter),
                         d_reporter_name = dict_get kvs ''reporterDesc'' (JStr []),
                         d_partner_code = dict_get kvs ''partnerCode'' (JStr []),
                         d_partner_name = dict_get kvs ''partnerDesc'' (JStr []),
                         d_trade_flow = dict_get kvs ''flowDesc'' (JStr ''Import''),
                         d_hs_code = dict_get kvs ''cmdCode'' (JStr hs),
                         d_hs_description = dict_get kvs ''cmdDesc'' (JStr []),
                         d_trade_value = tv,
                         d_quantity = q,
                         d_unit = dict_get kvs ''qtyUnitAbbr'' (JStr [])\<rparr>))
      | _ \<Rightarrow> Inl AttributeError)"

text \<open>
  The loop \<^verbatim>\<open>for record in response['data']\<close>: \<^verbatim>\<open>except (ValueError, TypeError)\<close> logs
  and continues with the next record; any other exception leaves the loop.
\<close>

fun map_records :: "(string \<Rightarrow> real option) \<Rightarrow> string \<Rightarrow> int \<Rightarrow> string \<Rightarrow> json list \<Rightarrow> error + data_record list" where
  "map_records float_of_str reporter yr hs [] = Inr []"
| "map_records float_of_str reporter yr hs (record # rest) =
     (case map_record float_of_str reporter yr hs record of
        Inl e \<Rightarrow>
          if e = ValueError \<or> e = TypeError then map_records float_of_str reporter yr hs rest
          else Inl e
      | Inr t \<Rightarrow>
          (case map_records float_of_str reporter yr hs rest of
             Inl e \<Rightarrow> Inl e
           | Inr ts \<Rightarrow> Inr (t # ts)))"

text \<open>
  \<^verbatim>\<open>extract_trade_data_free_api\<close>, given what \<^verbatim>\<open>make_request\<close> returned (\<open>None\<close> for a
  failed request) and the \<open>writer\<close>, \<^verbatim>\<open>self.db_manager.insert_trade_data\<close>, which returns
  the exception it raised (if any) and the database it left. The result is the number
  the function returns and the database afterwards. The outer
  \<^verbatim>\<open>except Exception\<close> turns every exception into the result 0. A response that is no
  dict, or has no \<^verbatim>\<open>data\<close> key, or whose \<^verbatim>\<open>data\<close> is no list, gives 0 on every path
  (the warning, an exception on subscripting or iterating, or an empty list of
  records).
\<close>

definition extract_trade_data_free_api ::
  "(string \<Rightarrow> real option) \<Rightarrow> (data_record list \<Rightarrow> 'db \<Rightarrow> error option \<times> 'db)
     \<Rightarrow> string \<Rightarrow> int \<Rightarrow> string \<Rightarrow> json option \<Rightarrow> 'db \<Rightarrow> nat \<times> 'db" where
  "extract_trade_data_free_api float_of_str writer reporter yr hs response db =
     (case response of
        Some (JObj kvs) \<Rightarrow>
          (case map_of (rev kvs) ''data'' of
             Some (JArr records) \<Rightarrow>
               (case map_records float_of_str reporter yr hs records of
                  Inl e \<Rightarrow> (0, db)
                | Inr data_records \<Rightarrow>
                    if data_records \<noteq> [] then
                      (case writer data_records db of
                         (None, db') \<Rightarrow> (length data_records, db')
                       | (Some e, db') \<Rightarrow> (0, db'))
                    else (0, db))
           | _ \<Rightarrow> (0, db))
      | _ \<Rightarrow> (0, db))"

section \<open>Extractor: the rate limiter (check_rate_limit)\<close>

text \<open>
  Times are \<^verbatim>\<open>datetime\<close> values counted in microseconds. The difference of two of them
  is a \<^verbatim>\<open>timedelta\<close>, which Python keeps as days, seconds (0 to 86399) and microseconds
  (0 to 999999); its attribute \<^verbatim>\<open>seconds\<close> is the middle component.
\<close>

definition timedelta_seconds :: "int \<Rightarrow> int" where
  "timedelta_seconds d = (d div 1000000) mod 86400"

record extractor =
  requests_made :: "int list"
  max_requests_per_hour :: int

text \<open>
  \<open>now\<close> is \<^verbatim>\<open>datetime.now()\<close>. The result is the number of seconds the call slept and
  the limiter afterwards.
\<close>

definition check_rate_limit :: "int \<Rightarrow> extractor \<Rightarrow> nat \<times> extractor" where
  "check_rate_limit now ex =
     (let kept = filter (\<lambda>req_time. timedelta_seconds (now - req_time) < 3600) (requests_made ex)
      in if int (length kept) \<ge> max_requests_per_hour ex
         then (3600, ex\<lparr>requests_made := []\<rparr>)
         else (0, ex\<lparr>requests_made := kept\<rparr>))"

section \<open>Auxiliary notions for the statements\<close>

text \<open>A character that LIKE takes literally and in one case only: neither a wildcard
  nor an ASCII letter.\<close>

definition like_plain :: "char \<Rightarrow> bool" where
  "like_plain c \<longleftrightarrow> c \<noteq> CHR ''%'' \<and> c \<noteq> CHR ''_''
     \<and> \<not> (65 \<le> (of_char c :: nat) \<and> (of_char c :: nat) \<le> 90)
     \<and> \<not> (97 \<le> (of_char c :: nat) \<and> (of_char c :: nat) \<le> 122)"

text \<open>A record as the extractor writes it and a small fact table, used for the concrete
  evaluations below.\<close>

definition sample_tuple :: trade_tuple where
  "sample_tuple =
     \<lparr>year = Some 2022, month = None, reporter_code = Some ''USA'',
      reporter_name = Some ''United States of America'', partner_code = Some ''CHN'',
      partner_name = Some ''China'', trade_flow = Some ''Import'', hs_code = Some ''8471'',
      hs_description = Some ''Computers'', trade_value = Some 1500, quantity = None,
      unit = Some ''KG''\<rparr>"

definition sample_store :: store where
  "sample_store =
     init_database
       \<lparr>trade_data :=
          [mk_row 1 0 sample_tuple,
           mk_row 2 0 (sample_tuple\<lparr>hs_code := Some ''185'', trade_value := None\<rparr>),
           mk_row 3 0 (sample_tuple\<lparr>hs_code := Some ''84'', year := Some 2023\<rparr>),
           mk_row 4 0 (sample_tuple\<lparr>hs_code := Some ''TOTAL'', trade_value := Some 9000\<rparr>)],
        trade_seq := 4\<rparr>"

text \<open>
  For the evaluations of the response mapping: a reader of strings that knows the
  unsigned decimal integers only (on these, and on strings that are no number at all,
  it agrees with Python's \<^verbatim>\<open>float\<close>), and a writer that appends the tuples it is given
  to a list and never raises.
\<close>

definition float_of_digits :: "string \<Rightarrow> real option" where
  "float_of_digits s =
     (if s \<noteq> [] \<and> list_all (\<lambda>c. 48 \<le> (of_char c :: nat) \<and> (of_char c :: nat) \<le> 57) s
      then Some (real (foldl (\<lambda>n c. 10 * n + (of_char c - 48)) 0 s))
      else None)"

definition list_writer :: "data_record list \<Rightarrow> data_record list \<Rightarrow> error option \<times> data_record list" where
  "list_writer data_list db = (None, db @ data_list)"

section \<open>Properties of the fact-table writer\<close>

lemma tuple_of_mk_row: "tuple_of (mk_row i ts t) = t"
  by (simp add: tuple_of_def mk_row_def trade_tuple.extend_def trade_row.fields_def)

lemma row_id_mk_row: "row_id (mk_row i ts t) = i"
  by (simp add: mk_row_def trade_tuple.extend_def trade_row.fields_def)

lemma foldr_max_ge: "x \<in> set xs \<Longrightarrow> x \<le> foldr max xs (0::int)"
  by (induction xs) auto

lemma foldr_max_nonneg: "0 \<le> foldr max xs (0::int)"
  by (induction xs) auto

lemma foldr_max_snoc: "0 \<le> a \<Longrightarrow> foldr max (xs @ [a]) (0::int) = max (foldr max xs 0) a"
  by (induction xs) auto

lemma row_id_le_largest: "r \<in> set (trade_data st) \<Longrightarrow> row_id r \<le> largest_rowid st"
  using foldr_max_ge [of "row_id r" "map row_id (trade_data st)"]
  by (simp add: largest_rowid_def)

lemma insert_trade_row_Inr:
  assumes "insert_trade_row now t st = Inr st'"
  shows "\<exists>r. trade_data st' = trade_data st @ [r] \<and> tuple_of r = t
            \<and> (\<forall>r0 \<in> set (trade_data st). row_id r0 < row_id r)
            \<and> countries st' = countries st \<and> hs_codes st' = hs_codes st"
proof -
  from assms have st': "st' = st\<lparr>trade_data := trade_data st @ [mk_row (largest_rowid st + 1) now t],
                               trade_seq := largest_rowid st + 1\<rparr>"
    by (simp add: insert_trade_row_def split: if_splits)
  have "\<forall>r0 \<in> set (trade_data st). row_id r0 < largest_rowid st + 1"
    using row_id_le_largest by fastforce
  with st' show ?thesis
    by (simp add: tuple_of_mk_row row_id_mk_row)
qed

lemma executemany_trade_Inr:
  "executemany_trade now b st = Inr st' \<Longrightarrow>
     \<exists>rows. trade_data st' = trade_data st @ rows \<and> map tuple_of rows = b
        \<and> distinct (map row_id rows)
        \<and> (\<forall>r \<in> set rows. \<forall>r0 \<in> set (trade_data st). row_id r0 < row_id r)
        \<and> countries st' = countries st \<and> hs_codes st' = hs_codes st"
proof (induction b arbitrary: st)
  case Nil
  then show ?case by simp
next
  case (Cons t ts)
  from Cons.prems obtain st1 where
    one: "insert_trade_row now t st = Inr st1" and
    rest: "executemany_trade now ts st1 = Inr st'"
    by (auto split: sum.splits)
  from insert_trade_row_Inr [OF one] obtain r where
    r: "trade_data st1 = trade_data st @ [r]" "tuple_of r = t"
       "\<forall>r0 \<in> set (trade_data st). row_id r0 < row_id r"
       "countries st1 = countries st" "hs_codes st1 = hs_codes st"
    by blast
  from Cons.IH [OF rest] obtain rows where
    rows: "trade_data st' = trade_data st1 @ rows" "map tuple_of rows = ts"
          "distinct (map row_id rows)"
          "\<forall>r' \<in> set rows. \<forall>r0 \<in> set (trade_data st1). row_id r0 < row_id r'"
          "countries st' = countries st1" "hs_codes st' = hs_codes st1"
    by blast
  have later: "\<forall>r' \<in> set rows. row_id r < row_id r'"
    using rows(4) r(1) by simp
  then have "row_id r \<notin> set (map row_id rows)"
    by auto
  moreover have "\<forall>r' \<in> set (r # rows). \<forall>r0 \<in> set (trade_data st). row_id r0 < row_id r'"
    using r(3) rows(4) r(1) by auto
  ultimately show ?case
    using r rows by (intro exI [of _ "r # rows"]) simp
qed

lemma executemany_trade_ok:
  "\<forall>t \<in> set b. bindable t \<Longrightarrow> largest_rowid st + int (length b) < 2 ^ 63 \<Longrightarrow>
     \<exists>st'. executemany_trade now b st = Inr st'"
proof (induction b arbitrary: st)
  case Nil
  then show ?case by simp
next
  case (Cons t ts)
  let ?st1 = "st\<lparr>trade_data := trade_data st @ [mk_row (largest_rowid st + 1) now t],
                 trade_seq := largest_rowid st + 1\<rparr>"
  have one: "insert_trade_row now t st = Inr ?st1"
    using Cons.prems by (simp add: insert_trade_row_def)
  have "0 \<le> largest_rowid st + 1"
    using foldr_max_nonneg [of "map row_id (trade_data st)"] by (simp add: largest_rowid_def)
  then have "foldr max (map row_id (trade_data st) @ [largest_rowid st + 1]) 0
               = max (foldr max (map row_id (trade_data st)) 0) (largest_rowid st + 1)"
    by (rule foldr_max_snoc)
  moreover have "foldr max (map row_id (trade_data st)) 0 \<le> largest_rowid st"
    by (simp add: largest_rowid_def)
  ultimately have "largest_rowid ?st1 = largest_rowid st + 1"
    unfolding largest_rowid_def [of ?st1] by (simp add: row_id_mk_row)
  then have "\<exists>st'. executemany_trade now ts ?st1 = Inr st'"
    using Cons.prems by (intro Cons.IH) auto
  with one show ?case by simp
qed


lemma insert_trade_data_None:
  "insert_trade_data now b st = (None, st') \<longleftrightarrow> executemany_trade now b st = Inr st'"
  by (simp add: insert_trade_data_def with_connection_def split: sum.splits)

lemma insert_sample_tuple:
  "largest_rowid st < 2 ^ 63 - 1 \<Longrightarrow>
   insert_trade_row now sample_tuple st =
     Inr (st\<lparr>trade_data := trade_data st @ [mk_row (largest_rowid st + 1) now sample_tuple],
             trade_seq := largest_rowid st + 1\<rparr>)"
  by (simp add: insert_trade_row_def bindable_def bind_int_def in_int64_def sample_tuple_def)

text \<open>
  C2. Two calls to \<open>insert_trade_data\<close> that both commit never replace or merge rows,
  whatever the business attributes of the records: after the second call the fact
  table holds the rows it held before the first call followed by a row for every
  record of the first batch and a row for every record of the second batch, so its
  row count is the count after the first call plus the size of the second batch, and
  the rows written by the two calls have pairwise distinct ids. In particular a record
  inserted by both calls is stored twice.
\<close>

theorem insert_trade_data_no_dedup:
  assumes "insert_trade_data n1 b1 st = (None, st1)"
    and "insert_trade_data n2 b2 st1 = (None, st2)"
  shows "length (trade_data st2) = length (trade_data st1) + length b2
       \<and> map tuple_of (trade_data st2) = map tuple_of (trade_data st) @ b1 @ b2
       \<and> distinct (map row_id (drop (length (trade_data st)) (trade_data st2)))"
proof -
  from assms(1) have "executemany_trade n1 b1 st = Inr st1"
    by (simp add: insert_trade_data_None)
  from executemany_trade_Inr [OF this] obtain rows1 where
    r1: "trade_data st1 = trade_data st @ rows1" "map tuple_of rows1 = b1"
        "distinct (map row_id rows1)"
    by blast
  from assms(2) have "executemany_trade n2 b2 st1 = Inr st2"
    by (simp add: insert_trade_data_None)
  from executemany_trade_Inr [OF this] obtain rows2 where
    r2: "trade_data st2 = trade_data st1 @ rows2" "map tuple_of rows2 = b2"
        "distinct (map row_id rows2)"
        "\<forall>r \<in> set rows2. \<forall>r0 \<in> set (trade_data st1). row_id r0 < row_id r"
    by blast
  have len: "length rows2 = length b2"
    using r2(2) by (metis length_map)
  have "\<forall>r \<in> set rows2. \<forall>r0 \<in> set rows1. row_id r0 < row_id r"
    using r2(4) r1(1) by simp
  then have "set (map row_id rows1) \<inter> set (map row_id rows2) = {}"
    by fastforce
  then have "distinct (map row_id (rows1 @ rows2))"
    using r1(3) r2(3) by simp
  moreover have "drop (length (trade_data st)) (trade_data st2) = rows1 @ rows2"
    using r1(1) r2(1) by simp
  ultimately show ?thesis
    using r1 r2 len by simp
qed

theorem insert_trade_data_no_dedup_witness:
  "insert_trade_data 10 [sample_tuple] init_database
     = (None, init_database\<lparr>trade_data := [mk_row 1 10 sample_tuple], trade_seq := 1\<rparr>)
   \<and> insert_trade_data 20 [sample_tuple]
        (init_database\<lparr>trade_data := [mk_row 1 10 sample_tuple], trade_seq := 1\<rparr>)
     = (None, init_database\<lparr>trade_data := [mk_row 1 10 sample_tuple, mk_row 2 20 sample_tuple],
                            trade_seq := 2\<rparr>)
   \<and> map tuple_of [mk_row 1 10 sample_tuple, mk_row 2 20 sample_tuple]
        = [sample_tuple, sample_tuple]
   \<and> distinct (map row_id [mk_row 1 10 sample_tuple, mk_row 2 20 sample_tuple])"
proof -
  let ?st1 = "init_database\<lparr>trade_data := [mk_row 1 10 sample_tuple], trade_seq := 1\<rparr>"
  let ?st2 = "init_database\<lparr>trade_data := [mk_row 1 10 sample_tuple, mk_row 2 20 sample_tuple],
                            trade_seq := 2\<rparr>"
  have a: "insert_trade_data 10 [sample_tuple] init_database = (None, ?st1)"
    by (simp add: insert_trade_data_None insert_sample_tuple largest_rowid_def init_database_def)
  have b: "insert_trade_data 20 [sample_tuple] ?st1 = (None, ?st2)"
    by (simp add: insert_trade_data_None insert_sample_tuple largest_rowid_def init_database_def
        row_id_mk_row)
  from insert_trade_data_no_dedup [OF a b] a b show ?thesis
    by (simp add: init_database_def)
qed

text \<open>
  C8. Every call of \<open>insert_trade_data\<close> has one of two outcomes. Either it raises
  nothing and the fact table afterwards is the table before followed by one row for
  every record of the batch, in order (and the reference tables are untouched); or it
  raises an exception to the caller and the whole database is exactly as it was before
  the call, also when records before the failing one had already been executed. No
  third outcome exists: a batch is never committed in part.
\<close>

theorem insert_trade_data_atomic:
  "(\<exists>st'. insert_trade_data now b st = (None, st')
        \<and> map tuple_of (trade_data st') = map tuple_of (trade_data st) @ b
        \<and> take (length (trade_data st)) (trade_data st') = trade_data st
        \<and> countries st' = countries st \<and> hs_codes st' = hs_codes st)
   \<or> (\<exists>e. insert_trade_data now b st = (Some e, st))"
proof (cases "executemany_trade now b st")
  case (Inl e)
  then show ?thesis
    by (simp add: insert_trade_data_def with_connection_def)
next
  case (Inr st')
  from executemany_trade_Inr [OF Inr] obtain rows where
    "trade_data st' = trade_data st @ rows" "map tuple_of rows = b"
    "countries st' = countries st" "hs_codes st' = hs_codes st"
    by blast
  with Inr show ?thesis
    by (simp add: insert_trade_data_def with_connection_def)
qed

text \<open>The witness is a failure in the middle of a batch: the second of three records
  has a year that does not fit SQLite's 64-bit INTEGER, the first has been executed
  when the exception is raised, and nothing is stored.\<close>

theorem insert_trade_data_atomic_witness:
  "insert_trade_data 10 [sample_tuple, sample_tuple\<lparr>year := Some (2 ^ 63)\<rparr>, sample_tuple]
     init_database = (Some OverflowError, init_database)"
proof -
  let ?b = "[sample_tuple, sample_tuple\<lparr>year := Some (2 ^ 63)\<rparr>, sample_tuple]"
  have bad: "\<not> bindable (sample_tuple\<lparr>year := Some (2 ^ 63)\<rparr>)"
    by (simp add: bindable_def bind_int_def in_int64_def)
  have "executemany_trade 10 ?b init_database = Inl OverflowError"
    using bad
    by (simp add: insert_sample_tuple largest_rowid_def init_database_def insert_trade_row_def)
  then show ?thesis
    using insert_trade_data_atomic [of 10 ?b init_database]
    by (simp add: insert_trade_data_def with_connection_def)
qed

section \<open>Properties of the reference-table writer\<close>

lemma executemany_upsert_snoc:
  "executemany_upsert key (b @ [c]) tab = upsert key c (executemany_upsert key b tab)"
  by (simp add: executemany_upsert_def)

lemma executemany_upsert_Cons:
  "executemany_upsert key (c # b) tab = executemany_upsert key b (upsert key c tab)"
  by (simp add: executemany_upsert_def)

lemma filter_key_upsert:
  "filter (\<lambda>r. key r = Some k) (upsert key c tab) =
     (if key c = Some k then [c] else filter (\<lambda>r. key r = Some k) tab)"
proof -
  have "filter (\<lambda>r. key r = Some k) (filter (\<lambda>r0. key r0 = None \<or> key r0 \<noteq> key c) tab)
          = (if key c = Some k then [] else filter (\<lambda>r. key r = Some k) tab)"
    by (induction tab) auto
  then show ?thesis
    by (simp add: upsert_def)
qed

lemma filter_key_executemany_upsert:
  "Some k \<in> key ` set b \<Longrightarrow>
     filter (\<lambda>r. key r = Some k) (executemany_upsert key b tab)
       = [last (filter (\<lambda>r. key r = Some k) b)]"
proof (induction b rule: rev_induct)
  case Nil
  then show ?case by simp
next
  case (snoc c b)
  show ?case
  proof (cases "key c = Some k")
    case True
    then show ?thesis
      by (simp add: executemany_upsert_snoc filter_key_upsert)
  next
    case False
    with snoc.prems have "Some k \<in> key ` set b"
      by auto
    with snoc.IH False show ?thesis
      by (simp add: executemany_upsert_snoc filter_key_upsert)
  qed
qed

lemma set_last_writes: "set (last_writes key b) \<subseteq> set b"
  by (induction b) auto

lemma executemany_upsert_last_writes:
  "None \<notin> key ` set b \<Longrightarrow>
     executemany_upsert key b tab
       = filter (\<lambda>r. key r \<notin> key ` set b) tab @ last_writes key b"
proof (induction b arbitrary: tab)
  case Nil
  then show ?case by (simp add: executemany_upsert_def)
next
  case (Cons c b)
  from Cons.prems have c: "key c \<noteq> None" and b: "None \<notin> key ` set b"
    by (force+)
  have "filter (\<lambda>r. key r \<notin> key ` set b) (filter (\<lambda>r0. key r0 = None \<or> key r0 \<noteq> key c) tab)
          = filter (\<lambda>r. key r \<notin> key ` set (c # b)) tab"
    using c by (induction tab) auto
  then show ?case
    using Cons.IH [OF b, of "upsert key c tab"] c
    by (auto simp: executemany_upsert_Cons upsert_def)
qed

lemma executemany_upsert_idem:
  assumes "None \<notin> key ` set b"
  shows "executemany_upsert key b (executemany_upsert key b tab) = executemany_upsert key b tab"
proof -
  have "filter (\<lambda>r. key r \<notin> key ` set b) (last_writes key b) = []"
    using set_last_writes [of key b] by (auto simp: filter_empty_conv)
  then show ?thesis
    by (simp add: executemany_upsert_last_writes [OF assms])
qed

lemma insert_countries_eq:
  "insert_countries b st
     = (None, st\<lparr>countries := executemany_upsert code b (countries st)\<rparr>)"
  by (simp add: insert_countries_def with_connection_def)

lemma insert_hs_codes_eq:
  "insert_hs_codes b st
     = (None, st\<lparr>hs_codes := executemany_upsert hs_key b (hs_codes st)\<rparr>)"
  by (simp add: insert_hs_codes_def with_connection_def)

text \<open>
  C3. The reference upsert is keyed by the code. Whatever the tables held and whatever
  an earlier call wrote, after a call of \<open>insert_countries\<close> whose batch contains the
  country code \<open>k\<close> the table holds exactly one row with code \<open>k\<close>, and it is the last
  row of that batch with this code (last write wins); two calls writing the same code
  with different names therefore leave one row, with the second name. Writing the same
  batch of coded rows a second time changes nothing (idempotence). The same holds for
  \<open>insert_hs_codes\<close>.
\<close>

theorem reference_upsert_last_write_wins:
  "(Some k \<in> code ` set b2 \<longrightarrow>
      filter (\<lambda>r. code r = Some k)
        (countries (snd (insert_countries b2 (snd (insert_countries b1 st)))))
        = [last (filter (\<lambda>r. code r = Some k) b2)])
   \<and> (None \<notin> code ` set b2 \<longrightarrow>
      insert_countries b2 (snd (insert_countries b2 st)) = insert_countries b2 st)
   \<and> (Some k \<in> hs_key ` set h2 \<longrightarrow>
      filter (\<lambda>r. hs_key r = Some k)
        (hs_codes (snd (insert_hs_codes h2 (snd (insert_hs_codes h1 st)))))
        = [last (filter (\<lambda>r. hs_key r = Some k) h2)])
   \<and> (None \<notin> hs_key ` set h2 \<longrightarrow>
      insert_hs_codes h2 (snd (insert_hs_codes h2 st)) = insert_hs_codes h2 st)"
  by (simp add: insert_countries_eq insert_hs_codes_eq filter_key_executemany_upsert
      executemany_upsert_idem)

theorem reference_upsert_last_write_wins_witness:
  "filter (\<lambda>r. code r = Some ''DEU'')
     (countries (snd (insert_countries
        [\<lparr>code = Some ''DEU'', name = Some ''Germany'', region = Some ''Europe''\<rparr>]
        (snd (insert_countries
           [\<lparr>code = Some ''DEU'', name = Some ''Deutschland'', region = Some ''EU''\<rparr>]
           init_database)))))
     = [\<lparr>code = Some ''DEU'', name = Some ''Germany'', region = Some ''Europe''\<rparr>]
   \<and> insert_countries
        [\<lparr>code = Some ''DEU'', name = Some ''Germany'', region = Some ''Europe''\<rparr>]
        (snd (insert_countries
           [\<lparr>code = Some ''DEU'', name = Some ''Germany'', region = Some ''Europe''\<rparr>]
           init_database))
     = insert_countries
        [\<lparr>code = Some ''DEU'', name = Some ''Germany'', region = Some ''Europe''\<rparr>]
        init_database
   \<and> filter (\<lambda>r. hs_key r = Some ''84'')
     (hs_codes (snd (insert_hs_codes
        [\<lparr>hs_key = Some ''84'', description = Some ''Machinery'', hs_section = Some ''Various''\<rparr>]
        (snd (insert_hs_codes
           [\<lparr>hs_key = Some ''84'', description = Some ''Boilers'', hs_section = Some ''Various''\<rparr>]
           init_database)))))
     = [\<lparr>hs_key = Some ''84'', description = Some ''Machinery'', hs_section = Some ''Various''\<rparr>]
   \<and> insert_hs_codes
        [\<lparr>hs_key = Some ''84'', description = Some ''Machinery'', hs_section = Some ''Various''\<rparr>]
        (snd (insert_hs_codes
           [\<lparr>hs_key = Some ''84'', description = Some ''Machinery'', hs_section = Some ''Various''\<rparr>]
           init_database))
     = insert_hs_codes
        [\<lparr>hs_key = Some ''84'', description = Some ''Machinery'', hs_section = Some ''Various''\<rparr>]
        init_database"
  using reference_upsert_last_write_wins
    [of "''DEU''" "[\<lparr>code = Some ''DEU'', name = Some ''Germany'', region = Some ''Europe''\<rparr>]"
        "[\<lparr>code = Some ''DEU'', name = Some ''Deutschland'', region = Some ''EU''\<rparr>]"
        init_database
        "[\<lparr>hs_key = Some ''84'', description = Some ''Machinery'', hs_section = Some ''Various''\<rparr>]"
        "[\<lparr>hs_key = Some ''84'', description = Some ''Boilers'', hs_section = Some ''Various''\<rparr>]"]
    reference_upsert_last_write_wins
    [of "''84''" "[]" "[]" init_database
        "[\<lparr>hs_key = Some ''84'', description = Some ''Machinery'', hs_section = Some ''Various''\<rparr>]"
        "[\<lparr>hs_key = Some ''84'', description = Some ''Boilers'', hs_section = Some ''Various''\<rparr>]"]
  by simp

section \<open>Properties of get_trade_data\<close>

lemma mset_insort_by: "mset (insort_by le x xs) = add_mset x (mset xs)"
  by (induction xs) auto

lemma mset_sort_by: "mset (sort_by le xs) = mset xs"
  by (induction xs) (auto simp: sort_by_def mset_insort_by)

lemma set_insort_by: "set (insort_by le x xs) = insert x (set xs)"
  by (induction xs) auto

lemma sorted_insort_by:
  assumes total: "\<And>a b. le a b \<or> le b a" and trans: "\<And>a b c. le a b \<Longrightarrow> le b c \<Longrightarrow> le a c"
  shows "sorted_wrt le xs \<Longrightarrow> sorted_wrt le (insort_by le x xs)"
proof (induction xs)
  case Nil
  then show ?case by simp
next
  case (Cons y ys)
  show ?case
  proof (cases "le x y")
    case True
    then have "\<forall>z \<in> set ys. le x z"
      using Cons.prems trans by auto
    with True Cons.prems show ?thesis by simp
  next
    case False
    then have "le y x" using total by blast
    with False Cons show ?thesis
      by (auto simp: set_insort_by)
  qed
qed

lemma sorted_sort_by:
  assumes "\<And>a b. le a b \<or> le b a" and "\<And>a b c. le a b \<Longrightarrow> le b c \<Longrightarrow> le a c"
  shows "sorted_wrt le (sort_by le xs)"
proof (induction xs)
  case Nil
  then show ?case by (simp add: sort_by_def)
next
  case (Cons x xs)
  have "sorted_wrt le (insort_by le x (sort_by le xs))"
    using assms Cons.IH by (rule sorted_insort_by)
  then show ?case by (simp add: sort_by_def)
qed

lemma desc_nulls_last_total: "desc_nulls_last a b \<or> desc_nulls_last b a"
  by (auto simp: desc_nulls_last_def split: option.splits)

lemma desc_nulls_last_trans:
  "desc_nulls_last a b \<Longrightarrow> desc_nulls_last b c \<Longrightarrow> desc_nulls_last a c"
  by (auto simp: desc_nulls_last_def split: option.splits)

lemma desc_nulls_last_antisym:
  "desc_nulls_last a b \<Longrightarrow> desc_nulls_last b a \<Longrightarrow> a = b"
  by (auto simp: desc_nulls_last_def split: option.splits)

lemma trade_order_total:
  fixes a b :: "'a trade_tuple_scheme"
  shows "trade_order a b \<or> trade_order b a"
  using desc_nulls_last_total [of "year a" "year b"]
    desc_nulls_last_total [of "trade_value a" "trade_value b"]
  by (auto simp: trade_order_def dest: desc_nulls_last_antisym)

lemma trade_order_trans:
  fixes a b c :: "'a trade_tuple_scheme"
  assumes "trade_order a b" "trade_order b c"
  shows "trade_order a c"
proof -
  have y: "desc_nulls_last (year a) (year c)"
    using assms by (auto simp: trade_order_def intro: desc_nulls_last_trans)
  have "desc_nulls_last (trade_value a) (trade_value c)" if eq: "year a = year c"
  proof -
    have "year a = year b"
      using assms eq by (auto simp: trade_order_def intro: desc_nulls_last_antisym)
    then show ?thesis
      using assms eq by (auto simp: trade_order_def intro: desc_nulls_last_trans)
  qed
  with y show ?thesis by (simp add: trade_order_def)
qed

lemma trade_order_tuple_of: "trade_order (tuple_of a) (tuple_of b) = trade_order a b"
  by (simp add: trade_order_def tuple_of_def)

lemma sorted_order_by:
  "sorted_wrt trade_order (map tuple_of (sort_by trade_order (rows :: trade_row list)))"
proof -
  have "sorted_wrt trade_order (sort_by trade_order rows)"
    by (rule sorted_sort_by) (use trade_order_total trade_order_trans in blast)+
  then show ?thesis
    by (simp add: sorted_wrt_map trade_order_tuple_of)
qed

lemma get_trade_data_conds:
  "build_query filters = conds \<Longrightarrow> list_all cond_ok conds \<Longrightarrow>
   get_trade_data filters st =
     map tuple_of (sort_by trade_order
       (filter (\<lambda>r. list_all (\<lambda>c. holds c r) conds) (trade_data st)))"
  by (simp add: get_trade_data_def)

lemma build_query_None: "build_query None = []"
  by (simp add: build_query_def selected_def)

lemma build_query_empty: "build_query (Some Map.empty) = []"
  by (simp add: build_query_def selected_def)

lemma build_query_year: "build_query (Some [''year'' \<mapsto> PInt 2022]) = [YearEq (PInt 2022)]"
  by (simp add: build_query_def selected_def)

lemma int_col_eq_SInt: "int_col_eq c (SInt i) \<longleftrightarrow> c = Some i"
  by (cases c) auto

text \<open>
  C5. For every state of the fact table, \<open>get_trade_data\<close> with the filter
  \<^verbatim>\<open>{'year': 2022}\<close> returns the rows whose year is 2022, each as often as it is stored,
  and no other row; the result is ordered by year descending and, among rows of the
  same year, by trade value descending with the NULL trade values last
  (\<open>trade_order\<close> holds between every earlier and every later row). With the empty
  filter dictionary, or with no filters, it returns all rows, in the same order.
\<close>

theorem get_trade_data_year_2022:
  "mset (get_trade_data (Some [''year'' \<mapsto> PInt 2022]) st)
     = mset (map tuple_of (filter (\<lambda>r. year r = Some 2022) (trade_data st)))
   \<and> sorted_wrt trade_order (get_trade_data (Some [''year'' \<mapsto> PInt 2022]) st)
   \<and> mset (get_trade_data (Some Map.empty) st) = mset (map tuple_of (trade_data st))
   \<and> sorted_wrt trade_order (get_trade_data (Some Map.empty) st)
   \<and> get_trade_data None st = get_trade_data (Some Map.empty) st"
proof -
  have y: "get_trade_data (Some [''year'' \<mapsto> PInt 2022]) st =
      map tuple_of (sort_by trade_order (filter (\<lambda>r. year r = Some 2022) (trade_data st)))"
    by (simp add: get_trade_data_conds [OF build_query_year] in_int64_def int_col_eq_SInt)
  have e: "get_trade_data (Some Map.empty) st = map tuple_of (sort_by trade_order (trade_data st))"
    by (simp add: get_trade_data_conds [OF build_query_empty])
  have n: "get_trade_data None st = map tuple_of (sort_by trade_order (trade_data st))"
    by (simp add: get_trade_data_conds [OF build_query_None])
  show ?thesis
    unfolding y e n by (simp add: sorted_order_by mset_sort_by)
qed


lemma build_query_cong:
  "(\<And>k. selected f1 k = selected f2 k) \<Longrightarrow> build_query f1 = build_query f2"
  by (simp add: build_query_def)

lemma get_trade_data_cong:
  "(\<And>k. selected f1 k = selected f2 k) \<Longrightarrow> get_trade_data f1 st = get_trade_data f2 st"
  using build_query_cong [of f1 f2] by (simp add: get_trade_data_def)

text \<open>
  C10. A filter key bound to a falsy value (\<^verbatim>\<open>None\<close>, \<^verbatim>\<open>False\<close>, \<^verbatim>\<open>0\<close>, the empty
  string) is treated exactly like an omitted key: binding any key to such a value gives
  the result of the dictionary without that key, whatever the other keys are; and a
  dictionary all of whose values are falsy gives the result of no filters at all, which
  is every row of the fact table.
\<close>

theorem get_trade_data_falsy_filter:
  "(\<not> truthy v \<longrightarrow>
      get_trade_data (Some (f(k \<mapsto> v))) st = get_trade_data (Some (f(k := None))) st)
   \<and> ((\<forall>k \<in> dom f. \<not> truthy (the (f k))) \<longrightarrow>
      get_trade_data (Some f) st = get_trade_data None st
      \<and> mset (get_trade_data (Some f) st) = mset (map tuple_of (trade_data st)))"
proof (intro conjI impI)
  assume "\<not> truthy v"
  then have "selected (Some (f(k \<mapsto> v))) k' = selected (Some (f(k := None))) k'" for k'
    by (simp add: selected_def)
  then show "get_trade_data (Some (f(k \<mapsto> v))) st = get_trade_data (Some (f(k := None))) st"
    by (rule get_trade_data_cong)
next
  assume a: "\<forall>k \<in> dom f. \<not> truthy (the (f k))"
  have "selected (Some f) k' = selected None k'" for k'
    using a by (fastforce simp: selected_def dom_def split: option.splits)
  then show eq: "get_trade_data (Some f) st = get_trade_data None st"
    by (rule get_trade_data_cong)
  show "mset (get_trade_data (Some f) st) = mset (map tuple_of (trade_data st))"
    unfolding eq by (simp add: get_trade_data_conds [OF build_query_None] mset_sort_by)
qed


lemma like_lower_plain:
  assumes "like_plain p"
  shows "like_lower p = like_lower c \<longleftrightarrow> p = c"
proof -
  have "(of_char p :: nat) = of_char c \<longleftrightarrow> p = c"
    by (rule of_char_eq_iff)
  with assms show ?thesis
    by (auto simp: like_lower_def like_plain_def)
qed

lemma like_match_percent: "like_match ''%'' s"
  by (induction s) auto

lemma like_match_plain_prefix:
  "\<forall>c \<in> set p. like_plain c \<Longrightarrow> like_match (p @ ''%'') s \<longleftrightarrow> prefix p s"
proof (induction p arbitrary: s)
  case Nil
  then show ?case by (simp add: like_match_percent)
next
  case (Cons a p)
  then have a: "like_plain a" and p: "\<forall>c \<in> set p. like_plain c"
    by auto
  show ?case
  proof (cases s)
    case Nil
    with a show ?thesis by (simp add: like_plain_def)
  next
    case (Cons c cs)
    with a Cons.IH [OF p, of cs] show ?thesis
      by (simp add: like_lower_plain) (auto simp: like_plain_def)
  qed
qed

lemma build_query_hs:
  "p \<noteq> [] \<Longrightarrow> build_query (Some [''hs_code'' \<mapsto> PStr p]) = [HsLike (p @ ''%'')]"
  by (simp add: build_query_def selected_def)

text \<open>
  C4 (amended). For every state of the fact table and every non-empty filter string
  \<open>p\<close> of fewer than 50000 characters, \<open>get_trade_data\<close> with the filter
  \<^verbatim>\<open>{'hs_code': p}\<close> returns exactly the rows whose hs\_code is not NULL and matches the
  LIKE pattern \<open>p\<close> followed by \<^verbatim>\<open>%\<close>. When \<open>p\<close> contains no ASCII letter and neither
  \<^verbatim>\<open>%\<close> nor \<^verbatim>\<open>_\<close> (a string of digits, for one), these are exactly the rows whose
  hs\_code begins with \<open>p\<close>: the filter \<^verbatim>\<open>84\<close> returns the rows with hs\_code 8471 and 84
  and not the row with 185.
\<close>

theorem get_trade_data_hs_code_like:
  assumes "p \<noteq> []" and "length p < 50000"
  shows "mset (get_trade_data (Some [''hs_code'' \<mapsto> PStr p]) st)
           = mset (map tuple_of (filter (\<lambda>r. like_col (hs_code r) (p @ ''%'')) (trade_data st)))
       \<and> ((\<forall>c \<in> set p. like_plain c) \<longrightarrow>
            mset (get_trade_data (Some [''hs_code'' \<mapsto> PStr p]) st)
              = mset (map tuple_of
                   (filter (\<lambda>r. \<exists>h. hs_code r = Some h \<and> prefix p h) (trade_data st))))"
proof -
  have g: "get_trade_data (Some [''hs_code'' \<mapsto> PStr p]) st =
      map tuple_of (sort_by trade_order
        (filter (\<lambda>r. like_col (hs_code r) (p @ ''%'')) (trade_data st)))"
    using assms by (simp add: get_trade_data_conds [OF build_query_hs])
  have "like_col (hs_code r) (p @ ''%'') \<longleftrightarrow> (\<exists>h. hs_code r = Some h \<and> prefix p h)"
    if "\<forall>c \<in> set p. like_plain c" for r :: trade_row
    using like_match_plain_prefix [OF that] by (cases "hs_code r") (simp_all add: like_col_def)
  then show ?thesis
    unfolding g by (simp add: mset_sort_by cong: filter_cong)
qed

section \<open>Concrete evaluations of get_trade_data\<close>


lemmas eval_rows = sample_store_def init_database_def sample_tuple_def mk_row_def
  trade_tuple.extend_def trade_row.fields_def tuple_of_def

lemmas eval_query = get_trade_data_def build_query_def selected_def sort_by_def
  trade_order_def desc_nulls_last_def like_col_def like_lower_def in_int64_def

theorem get_trade_data_year_2022_witness:
  "get_trade_data (Some [''year'' \<mapsto> PInt 2022]) sample_store
     = [sample_tuple\<lparr>hs_code := Some ''TOTAL'', trade_value := Some 9000\<rparr>,
        sample_tuple,
        sample_tuple\<lparr>hs_code := Some ''185'', trade_value := None\<rparr>]
   \<and> sorted_wrt trade_order (get_trade_data (Some [''year'' \<mapsto> PInt 2022]) sample_store)
   \<and> map year (get_trade_data None sample_store) = [Some 2023, Some 2022, Some 2022, Some 2022]"
  using get_trade_data_year_2022 [of sample_store]
  by (simp add: eval_rows eval_query)

theorem get_trade_data_falsy_filter_witness:
  "get_trade_data (Some [''year'' \<mapsto> PInt 0, ''hs_code'' \<mapsto> PStr [], ''trade_flow'' \<mapsto> PBool False,
       ''partner_code'' \<mapsto> PNone]) sample_store
     = get_trade_data None sample_store
   \<and> get_trade_data (Some [''year'' \<mapsto> PInt 2023, ''hs_code'' \<mapsto> PStr []]) sample_store
     = get_trade_data (Some [''year'' \<mapsto> PInt 2023]) sample_store
   \<and> map hs_code (get_trade_data (Some [''hs_code'' \<mapsto> PStr []]) sample_store)
     = [Some ''84'', Some ''TOTAL'', Some ''8471'', Some ''185'']"
proof -
  let ?f = "[''year'' \<mapsto> PInt 0, ''hs_code'' \<mapsto> PStr [], ''trade_flow'' \<mapsto> PBool False,
       ''partner_code'' \<mapsto> PNone]"
  have "\<forall>k \<in> dom ?f. \<not> truthy (the (?f k))"
    by simp
  with get_trade_data_falsy_filter [of "PStr []" ?f "''hs_code''" sample_store]
  have a: "get_trade_data (Some ?f) sample_store = get_trade_data None sample_store"
    by blast
  from get_trade_data_falsy_filter [of "PStr []" "[''year'' \<mapsto> PInt 2023]" "''hs_code''" sample_store]
  have b: "get_trade_data (Some [''year'' \<mapsto> PInt 2023, ''hs_code'' \<mapsto> PStr []]) sample_store
     = get_trade_data (Some [''year'' \<mapsto> PInt 2023]) sample_store"
    by simp
  have c: "map hs_code (get_trade_data (Some [''hs_code'' \<mapsto> PStr []]) sample_store)
     = [Some ''84'', Some ''TOTAL'', Some ''8471'', Some ''185'']"
    by (simp add: eval_rows eval_query)
  from a b c show ?thesis by blast
qed

theorem get_trade_data_hs_code_like_witness:
  "map hs_code (get_trade_data (Some [''hs_code'' \<mapsto> PStr ''84'']) sample_store)
     = [Some ''84'', Some ''8471'']
   \<and> mset (get_trade_data (Some [''hs_code'' \<mapsto> PStr ''84'']) sample_store)
     = {#sample_tuple, sample_tuple\<lparr>hs_code := Some ''84'', year := Some 2023\<rparr>#}
   \<and> prefix ''84'' ''8471'' \<and> prefix ''84'' ''84'' \<and> \<not> prefix ''84'' ''185''"
proof -
  have plain: "\<forall>c \<in> set ''84''. like_plain c"
    by (simp add: like_plain_def)
  have h: "''84'' \<noteq> []" "length ''84'' < 50000"
    by simp_all
  from get_trade_data_hs_code_like [OF h, of sample_store] plain
  have "mset (get_trade_data (Some [''hs_code'' \<mapsto> PStr ''84'']) sample_store)
     = mset (map tuple_of (filter (\<lambda>r. \<exists>h. hs_code r = Some h \<and> prefix ''84'' h)
         (trade_data sample_store)))"
    by blast
  moreover have "map hs_code (get_trade_data (Some [''hs_code'' \<mapsto> PStr ''84'']) sample_store)
     = [Some ''84'', Some ''8471'']"
    by (simp add: eval_rows eval_query)
  ultimately show ?thesis
    by (simp add: eval_rows)
qed

text \<open>
  The claim as it was stated, that a row is returned if and only if its hs\_code begins
  with the filter string, fails: the filter \<^verbatim>\<open>total\<close> returns the row with hs\_code
  TOTAL, and the filter \<^verbatim>\<open>8_\<close> returns the row with hs\_code 8471; neither hs\_code
  begins with its filter.
\<close>

theorem get_trade_data_hs_code_prefix_counterexample:
  "sample_tuple\<lparr>hs_code := Some ''TOTAL'', trade_value := Some 9000\<rparr>
     \<in> set (get_trade_data (Some [''hs_code'' \<mapsto> PStr ''total'']) sample_store)
   \<and> \<not> prefix ''total'' ''TOTAL''
   \<and> sample_tuple \<in> set (get_trade_data (Some [''hs_code'' \<mapsto> PStr ''8_'']) sample_store)
   \<and> hs_code sample_tuple = Some ''8471''
   \<and> \<not> prefix ''8_'' ''8471''"
  by (simp add: eval_rows eval_query)

section \<open>Properties of the aggregates\<close>

lemma non_null_append: "non_null (xs @ ys) = non_null xs @ non_null ys"
  by (induction xs rule: non_null.induct) auto

lemma non_null_filter:
  "non_null (map f (filter (\<lambda>r. f r \<noteq> None) rows)) = non_null (map f rows)"
  by (induction rows) auto

lemma sql_sum_or_zero:
  "(case sql_sum xs of None \<Rightarrow> 0 | Some v \<Rightarrow> if v = 0 then 0 else v) = sum_list xs"
  by (cases xs) auto

lemma total_trade_value_eq:
  "total_trade_value (get_summary_stats st) = sum_list (non_null (map trade_value (trade_data st)))"
  unfolding get_summary_stats_def Let_def non_null_filter sql_sum_or_zero by simp

lemma total_records_eq: "total_records (get_summary_stats st) = length (trade_data st)"
  by (simp add: get_summary_stats_def Let_def)

text \<open>
  C6. On a store whose fact table is empty \<open>get_summary_stats\<close> returns its result
  with \<open>total_records = 0\<close> and the year range \<^verbatim>\<open>No data\<close>. On every store
  \<open>total_records\<close> is the number of rows and \<open>total_trade_value\<close> is the sum of the
  trade values that are not NULL: a row with a NULL trade value, wherever it stands in
  the table, adds one to \<open>total_records\<close> and nothing to \<open>total_trade_value\<close>.
\<close>

theorem get_summary_stats_empty_and_nulls:
  "(trade_data st = [] \<longrightarrow>
      total_records (get_summary_stats st) = 0
      \<and> year_range (get_summary_stats st) = ''No data'')
   \<and> total_records (get_summary_stats st) = length (trade_data st)
   \<and> total_trade_value (get_summary_stats st)
       = sum_list (non_null (map trade_value (trade_data st)))
   \<and> (trade_value r = None \<longrightarrow>
       total_records (get_summary_stats (st\<lparr>trade_data := xs @ r # ys\<rparr>))
         = total_records (get_summary_stats (st\<lparr>trade_data := xs @ ys\<rparr>)) + 1
       \<and> total_trade_value (get_summary_stats (st\<lparr>trade_data := xs @ r # ys\<rparr>))
         = total_trade_value (get_summary_stats (st\<lparr>trade_data := xs @ ys\<rparr>)))"
proof -
  have "year_range (get_summary_stats st) = ''No data''" if "trade_data st = []"
    using that by (simp add: get_summary_stats_def)
  then show ?thesis
    by (simp add: total_records_eq total_trade_value_eq non_null_append)
qed

lemma get_top_traders_null_value:
  "trade_value r = None \<Longrightarrow>
     get_top_traders flow limit (st\<lparr>trade_data := xs @ r # ys\<rparr>)
       = get_top_traders flow limit (st\<lparr>trade_data := xs @ ys\<rparr>)"
  by (simp add: get_top_traders_def)

lemma get_trade_trends_null_value:
  "trade_value r = None \<Longrightarrow>
     get_trade_trends cc (st\<lparr>trade_data := xs @ r # ys\<rparr>)
       = get_trade_trends cc (st\<lparr>trade_data := xs @ ys\<rparr>)"
  by (simp add: get_trade_trends_def)

lemma float_or_none_falsy:
  "\<not> json_truthy (dict_get kvs k JNull) \<Longrightarrow> float_or_none fs kvs k = Inr None"
  by (simp add: float_or_none_def)

text \<open>
  C9. In the response mapping a source record whose \<^verbatim>\<open>tradeValue\<close> is missing,
  \<^verbatim>\<open>null\<close>, 0, 0.0, empty or otherwise falsy is mapped (when its quantity converts) to
  a tuple whose trade value is \<^verbatim>\<open>None\<close>, that is NULL in the table, and not 0; likewise
  for \<^verbatim>\<open>qty\<close> and the quantity. A row with a NULL trade value takes no part in any
  aggregate sum: the total of \<open>get_summary_stats\<close>, the result of \<open>get_top_traders\<close>
  and the result of \<open>get_trade_trends\<close> are what they are without the row.
\<close>

theorem falsy_value_stored_null:
  "(\<not> json_truthy (dict_get kvs ''tradeValue'' JNull) \<longrightarrow>
      float_or_none fs kvs ''qty'' = Inr q \<longrightarrow>
      (\<exists>t. map_record fs reporter yr hs (JObj kvs) = Inr t
           \<and> d_trade_value t = None \<and> d_quantity t = q))
   \<and> (\<not> json_truthy (dict_get kvs ''qty'' JNull) \<longrightarrow>
      float_or_none fs kvs ''tradeValue'' = Inr tv \<longrightarrow>
      (\<exists>t. map_record fs reporter yr hs (JObj kvs) = Inr t
           \<and> d_trade_value t = tv \<and> d_quantity t = None))
   \<and> (trade_value r = None \<longrightarrow>
      total_trade_value (get_summary_stats (st\<lparr>trade_data := xs @ r # ys\<rparr>))
        = total_trade_value (get_summary_stats (st\<lparr>trade_data := xs @ ys\<rparr>))
      \<and> get_top_traders flow limit (st\<lparr>trade_data := xs @ r # ys\<rparr>)
        = get_top_traders flow limit (st\<lparr>trade_data := xs @ ys\<rparr>)
      \<and> get_trade_trends cc (st\<lparr>trade_data := xs @ r # ys\<rparr>)
        = get_trade_trends cc (st\<lparr>trade_data := xs @ ys\<rparr>))"
  by (simp add: map_record_def float_or_none_falsy total_trade_value_eq non_null_append
      get_top_traders_null_value get_trade_trends_null_value)


theorem get_summary_stats_empty_and_nulls_witness:
  "total_records (get_summary_stats init_database) = 0
   \<and> year_range (get_summary_stats init_database) = ''No data''
   \<and> trade_value (trade_data sample_store ! 1) = None
   \<and> total_records (get_summary_stats sample_store) = 4
   \<and> total_trade_value (get_summary_stats sample_store) = 12000
   \<and> year_range (get_summary_stats sample_store) = ''2022-2023''"
proof -
  have "year_range (get_summary_stats sample_store) = ''2022-2023''"
    by (simp add: get_summary_stats_def eval_rows str_int_def)
  then show ?thesis
    using get_summary_stats_empty_and_nulls [of init_database]
      get_summary_stats_empty_and_nulls [of sample_store]
    by (simp add: eval_rows)
qed

theorem falsy_value_stored_null_witness:
  "map_record float_of_digits ''USA'' 2022 ''TOTAL''
     (JObj [(''period'', JInt 2021), (''tradeValue'', JInt 0), (''qty'', JStr ''12'')])
     = Inr \<lparr>d_year = JInt 2021, d_month = JNull, d_reporter_code = JStr ''USA'',
            d_reporter_name = JStr [], d_partner_code = JStr [], d_partner_name = JStr [],
            d_trade_flow = JStr ''Import'', d_hs_code = JStr ''TOTAL'',
            d_hs_description = JStr [], d_trade_value = None, d_quantity = Some 12,
            d_unit = JStr []\<rparr>
   \<and> get_top_traders ''Import'' 10 sample_store
     = [(Some ''United States of America'', 12000, 3)]
   \<and> get_trade_trends None sample_store
     = [(Some 2022, Some ''Import'', 10500), (Some 2023, Some ''Import'', 1500)]"
proof -
  let ?kvs = "[(''period'', JInt 2021), (''tradeValue'', JInt 0), (''qty'', JStr ''12'')]"
  have q: "float_or_none float_of_digits ?kvs ''qty'' = Inr (Some 12)"
    by (simp add: float_or_none_def dict_get_def float_of_digits_def)
  have f: "\<not> json_truthy (dict_get ?kvs ''tradeValue'' JNull)"
    by (simp add: dict_get_def)
  from falsy_value_stored_null [of ?kvs float_of_digits "Some 12" "''USA''" 2022 "''TOTAL''"] q f
  obtain t where t: "map_record float_of_digits ''USA'' 2022 ''TOTAL'' (JObj ?kvs) = Inr t"
    "d_trade_value t = None" "d_quantity t = Some 12"
    by blast
  have m: "map_record float_of_digits ''USA'' 2022 ''TOTAL'' (JObj ?kvs)
     = Inr \<lparr>d_year = JInt 2021, d_month = JNull, d_reporter_code = JStr ''USA'',
            d_reporter_name = JStr [], d_partner_code = JStr [], d_partner_name = JStr [],
            d_trade_flow = JStr ''Import'', d_hs_code = JStr ''TOTAL'',
            d_hs_description = JStr [], d_trade_value = None, d_quantity = Some 12,
            d_unit = JStr []\<rparr>"
    using t q by (simp add: map_record_def dict_get_def float_or_none_def)
  have a: "get_top_traders ''Import'' 10 sample_store
     = [(Some ''United States of America'', 12000, 3)]"
    by (simp add: get_top_traders_def eval_rows in_int64_def sort_by_def)
  have b: "get_trade_trends None sample_store
     = [(Some 2022, Some ''Import'', 10500), (Some 2023, Some ''Import'', 1500)]"
    by (simp add: get_trade_trends_def eval_rows sort_by_def desc_nulls_last_def)
  from m a b show ?thesis by simp
qed

section \<open>Properties of the response mapping\<close>

lemma map_records_skip:
  "map_record fs reporter yr hs record = Inl e \<Longrightarrow> e = ValueError \<or> e = TypeError \<Longrightarrow>
     map_records fs reporter yr hs (record # rest) = map_records fs reporter yr hs rest"
  by auto

lemma map_records_abort:
  "map_record fs reporter yr hs record = Inl e \<Longrightarrow> e \<noteq> ValueError \<Longrightarrow> e \<noteq> TypeError \<Longrightarrow>
     map_records fs reporter yr hs (record # rest) = Inl e"
  by auto

lemma map_records_caught:
  assumes "\<forall>record \<in> set records. \<forall>e.
             map_record fs reporter yr hs record = Inl e \<longrightarrow> e = ValueError \<or> e = TypeError"
  shows "map_records fs reporter yr hs records
           = Inr (List.map_filter
                    (\<lambda>record. case map_record fs reporter yr hs record of
                                Inl e \<Rightarrow> None | Inr t \<Rightarrow> Some t) records)"
  using assms
proof (induction records)
  case Nil
  then show ?case by (simp add: List.map_filter_simps)
next
  case (Cons x rest)
  then have IH: "map_records fs reporter yr hs rest
           = Inr (List.map_filter
                    (\<lambda>record. case map_record fs reporter yr hs record of
                                Inl e \<Rightarrow> None | Inr t \<Rightarrow> Some t) rest)"
    by simp
  show ?case
  proof (cases "map_record fs reporter yr hs x")
    case (Inl e)
    with Cons.prems have "e = ValueError \<or> e = TypeError"
      by simp
    with Inl IH show ?thesis
      by (auto simp: List.map_filter_simps)
  next
    case (Inr t)
    with IH show ?thesis
      by (simp add: List.map_filter_simps)
  qed
qed

lemma map_record_non_numeric_string:
  "fs s = None \<Longrightarrow> s \<noteq> [] \<Longrightarrow>
     map_record fs reporter yr hs (JObj [(''tradeValue'', JStr s)]) = Inl ValueError"
  by (simp add: map_record_def float_or_none_def dict_get_def)

lemma map_record_overflow:
  "map_record fs reporter yr hs (JObj [(''tradeValue'', JInt (10 ^ 400))]) = Inl OverflowError"
  by (simp add: map_record_def float_or_none_def dict_get_def)

lemma map_record_not_dict:
  "map_record fs reporter yr hs JNull = Inl AttributeError"
  by (simp add: map_record_def)

lemma extract_skips_non_numeric:
  "extract_trade_data_free_api float_of_digits list_writer ''USA'' 2022 ''TOTAL''
     (Some (JObj [(''data'', JArr [JObj [(''tradeValue'', JStr ''n/a'')],
                                   JObj [(''tradeValue'', JStr ''1500'')]])])) []
     = (1, [\<lparr>d_year = JInt 2022, d_month = JNull, d_reporter_code = JStr ''USA'',
            d_reporter_name = JStr [], d_partner_code = JStr [], d_partner_name = JStr [],
            d_trade_flow = JStr ''Import'', d_hs_code = JStr ''TOTAL'',
            d_hs_description = JStr [], d_trade_value = Some 1500, d_quantity = None,
            d_unit = JStr []\<rparr>])"
  by (simp add: extract_trade_data_free_api_def map_record_def float_or_none_def dict_get_def
      float_of_digits_def list_writer_def)

text \<open>
  C7. The claim is that a malformed record is skipped by itself and the other records
  of the response are still mapped and written. The inner handler catches ValueError
  and TypeError only (\<open>map_records_skip\<close>, \<open>map_records_caught\<close>,
  \<open>extract_skips_non_numeric\<close>). A record
  whose trade value is an integer too large for a float raises OverflowError, and an
  element that is no object raises AttributeError: both leave the loop, the outer
  handler returns 0, and the well-formed record of the same response is never handed
  to the writer, whatever the writer and the reader of strings are.
\<close>

theorem extract_aborts_on_uncaught_exception:
  "extract_trade_data_free_api fs writer ''USA'' 2022 ''TOTAL''
     (Some (JObj [(''data'', JArr [JObj [(''tradeValue'', JInt (10 ^ 400))],
                                   JObj [(''tradeValue'', JFloat 1500)]])])) db
     = (0, db)
   \<and> extract_trade_data_free_api fs writer ''USA'' 2022 ''TOTAL''
     (Some (JObj [(''data'', JArr [JNull, JObj [(''tradeValue'', JFloat 1500)]])])) db
     = (0, db)
   \<and> (\<exists>t. map_record fs ''USA'' 2022 ''TOTAL'' (JObj [(''tradeValue'', JFloat 1500)]) = Inr t)"
  by (simp add: extract_trade_data_free_api_def map_record_overflow map_record_not_dict)
    (simp add: map_record_def float_or_none_def dict_get_def)

section \<open>Properties of the rate limiter\<close>

lemma timedelta_seconds_within_day:
  assumes "0 \<le> d" "d < 86400000000"
  shows "timedelta_seconds d < 3600 \<longleftrightarrow> d < 3600000000"
proof -
  have "0 \<le> d div 1000000"
    using assms(1) by (simp add: pos_imp_zdiv_nonneg_iff)
  moreover have "d div 1000000 \<le> 86399999999 div 1000000"
    using assms(2) by (intro zdiv_mono1) simp_all
  ultimately have s: "timedelta_seconds d = d div 1000000"
    by (simp add: timedelta_seconds_def)
  show ?thesis
  proof
    assume "timedelta_seconds d < 3600"
    show "d < 3600000000"
    proof (rule ccontr)
      assume "\<not> d < 3600000000"
      then have "3600000000 div 1000000 \<le> d div 1000000"
        by (intro zdiv_mono1) simp_all
      with \<open>timedelta_seconds d < 3600\<close> s show False by simp
    qed
  next
    assume "d < 3600000000"
    then have "d div 1000000 \<le> 3599999999 div 1000000"
      by (intro zdiv_mono1) simp_all
    with s show "timedelta_seconds d < 3600" by simp
  qed
qed

lemma check_rate_limit_suspends:
  "int (length (filter (\<lambda>t. timedelta_seconds (now - t) < 3600) (requests_made ex)))
      \<ge> max_requests_per_hour ex \<Longrightarrow>
   check_rate_limit now ex = (3600, ex\<lparr>requests_made := []\<rparr>)"
  by (simp add: check_rate_limit_def)

lemma check_rate_limit_two_recent:
  assumes "0 \<le> now - t1" "now - t1 \<le> 3300000000" "0 \<le> now - t2" "now - t2 \<le> 3300000000"
  shows "check_rate_limit now \<lparr>requests_made = [t1, t2], max_requests_per_hour = 2\<rparr>
           = (3600, \<lparr>requests_made = [], max_requests_per_hour = 2\<rparr>)"
  using assms by (simp add: check_rate_limit_def timedelta_seconds_within_day)

text \<open>
  C1. The claim is that every run of \<open>check_rate_limit\<close> discards every timestamp
  older than one hour. The code compares the \<^verbatim>\<open>seconds\<close> component of the age, which
  starts again from 0 every 24 hours: a timestamp that is 24 hours and 10 minutes old
  is kept, and a hundred of them make the call sleep for an hour under the ceiling of
  100 although no request was made in the last hour. (Within the first 24 hours the
  window is right, \<open>timedelta_seconds_within_day\<close>, and a full window suspends the call,
  \<open>check_rate_limit_suspends\<close>, \<open>check_rate_limit_two_recent\<close>.)
\<close>

theorem check_rate_limit_keeps_day_old:
  "check_rate_limit (t0 + 87000000000) \<lparr>requests_made = [t0], max_requests_per_hour = 100\<rparr>
     = (0, \<lparr>requests_made = [t0], max_requests_per_hour = 100\<rparr>)
   \<and> check_rate_limit (t0 + 87000000000)
       \<lparr>requests_made = replicate 100 t0, max_requests_per_hour = 100\<rparr>
     = (3600, \<lparr>requests_made = [], max_requests_per_hour = 100\<rparr>)"
  by (simp add: check_rate_limit_def timedelta_seconds_def)

end
